theory Spec2Isabelle
  imports Main
begin

section \<open>Data model of the battle predictor (types/pokemon.ts, PokemonBattle.tsx)\<close>

text \<open>
  A creature record as the lookup service returns it. Attribute values are JavaScript
  numbers that the service fills with integers; they are modelled as \<open>int\<close>.
\<close>

record stat_entry =
  base_stat :: int
  stat_name :: string

record Pokemon =
  poke_id :: int
  poke_name :: string
  front_default :: string
  stats :: "stat_entry list"
  types :: "string list"

datatype battle_result = Correct | Wrong

datatype game_status = Start | Playing | GameOver

datatype difficulty_level = Easy | Hard

text \<open>The \<open>GameState\<close> interface of the component, field by field.\<close>

record GameState =
  pokemon1 :: "Pokemon option"
  pokemon2 :: "Pokemon option"
  userChoice :: "int option"
  streak :: int
  highScore :: int
  isLoading :: bool
  result :: "battle_result option"
  achievements :: "string list"
  gameStatus :: game_status
  difficulty :: difficulty_level
  cooldown :: int

text \<open>
  The initial state built by the \<open>useState\<close> initialiser. The persisted high score is
  the integer whose decimal text is stored under the key \<open>pokemonHighScore\<close>, if any.
\<close>

definition initialState :: "int option \<Rightarrow> GameState" where
  "initialState savedHighScore =
     \<lparr> pokemon1 = None, pokemon2 = None, userChoice = None, streak = 0,
       highScore = (case savedHighScore of Some v \<Rightarrow> v | None \<Rightarrow> 0),
       isLoading = False, result = None, achievements = [],
       gameStatus = Start, difficulty = Easy, cooldown = 0 \<rparr>"

section \<open>Scores and the winner\<close>

definition calculateTotalStats :: "Pokemon \<Rightarrow> int" where
  "calculateTotalStats pokemon = foldl (\<lambda>sum stat. sum + base_stat stat) 0 (stats pokemon)"

definition isSimilarStats :: "Pokemon \<Rightarrow> Pokemon \<Rightarrow> bool" where
  "isSimilarStats p1 p2 =
     (let p1Total = calculateTotalStats p1;
          p2Total = calculateTotalStats p2;
          difference = \<bar>p1Total - p2Total\<bar>
      in difference \<le> 50)"

definition calculateWinner :: "Pokemon \<Rightarrow> Pokemon \<Rightarrow> int" where
  "calculateWinner p1 p2 =
     (let p1Power = calculateTotalStats p1;
          p2Power = calculateTotalStats p2
      in if p1Power \<ge> p2Power then 1 else 2)"

section \<open>State transitions of the component\<close>

text \<open>
  \<open>handleChoice\<close>: the guard returns without any update when a candidate is missing or
  the cooldown is running; otherwise one state update records the choice and its result.
  The handler reads the rendered state, which in this sequential model is the state that
  the update is applied to.
  The deferred \<open>loadNewBattle\<close> that a correct choice schedules is a later event of its own.
\<close>

definition handleChoice :: "GameState \<Rightarrow> int \<Rightarrow> GameState" where
  "handleChoice gameState choice =
     (case (pokemon1 gameState, pokemon2 gameState) of
        (Some p1, Some p2) \<Rightarrow>
          if cooldown gameState > 0 then gameState
          else
            (let winner = calculateWinner p1 p2;
                 isCorrect = (choice = winner);
                 newStreak = (if isCorrect then streak gameState + 1 else 0)
             in gameState\<lparr> userChoice := Some choice,
                           result := Some (if isCorrect then Correct else Wrong),
                           streak := newStreak,
                           gameStatus := (if \<not> isCorrect then GameOver else Playing),
                           cooldown := (if isCorrect then 3 else 0) \<rparr>)
      | _ \<Rightarrow> gameState)"

text \<open>
  The cooldown effect. Its test \<open>gameState.cooldown > 0\<close> is made on the rendered state
  and decides whether a one-second interval timer is armed. The callback of the timer is
  \<open>prev => ({ ...prev, cooldown: prev.cooldown - 1 })\<close>: it decrements whatever state it
  finds when it fires and makes no test of its own.
\<close>

definition cooldownTimerArmed :: "GameState \<Rightarrow> bool" where
  "cooldownTimerArmed gameState = (cooldown gameState > 0)"

definition tickCooldown :: "GameState \<Rightarrow> GameState" where
  "tickCooldown prev = prev\<lparr> cooldown := cooldown prev - 1 \<rparr>"

section \<open>The lookup service, the random source and the cache\<close>

text \<open>
  \<open>fetchRandomPokemon\<close> draws identifiers with \<open>Math.floor(Math.random() * 898) + 1\<close>,
  reads and fills the module-level \<open>pokemonCache\<close>, and sends requests with
  \<open>axios.get\<close>. The world makes these explicit: \<open>random_ids\<close> is the sequence of
  identifiers the random source yields and \<open>draws\<close> how many were taken; \<open>responses n i\<close>
  is the record that the request number \<open>n\<close>, asking for identifier \<open>i\<close>, resolves to
  (\<open>None\<close> when the request throws), and \<open>requests\<close> counts the requests sent.
\<close>

record world =
  pokemonCache :: "int \<rightharpoonup> Pokemon"
  random_ids :: "nat \<Rightarrow> int"
  draws :: nat
  responses :: "nat \<Rightarrow> int \<Rightarrow> Pokemon option"
  requests :: nat

definition randomId :: "world \<Rightarrow> int" where
  "randomId w = random_ids w (draws w)"

definition drawn :: "world \<Rightarrow> world" where
  "drawn w = w\<lparr> draws := Suc (draws w) \<rparr>"

definition axiosGet :: "world \<Rightarrow> int \<Rightarrow> Pokemon option" where
  "axiosGet w i = responses w (requests w) i"

definition requested :: "world \<Rightarrow> world" where
  "requested w = w\<lparr> requests := Suc (requests w) \<rparr>"

text \<open>
  The acceptance test of the sampling loop,
  \<open>!excludePokemon || (gameState.difficulty === 'hard' && isSimilarStats(pokemon, excludePokemon))\<close>.
  The difficulty is the one captured by the closure of \<open>fetchRandomPokemon\<close>.
\<close>

definition accepts :: "difficulty_level \<Rightarrow> Pokemon option \<Rightarrow> Pokemon \<Rightarrow> bool" where
  "accepts d excludePokemon pokemon =
     (case excludePokemon of
        None \<Rightarrow> True
      | Some excluded \<Rightarrow> d = Hard \<and> isSimilarStats pokemon excluded)"

definition maxAttempts :: nat where
  "maxAttempts = 5"

text \<open>
  The body of \<open>fetchRandomPokemon\<close> from the \<open>while\<close> loop on; \<open>attempts\<close> is the loop
  counter. A request that throws leaves through the \<open>catch\<close>, which returns \<open>null\<close>.
\<close>

function fetchLoop ::
  "difficulty_level \<Rightarrow> Pokemon option \<Rightarrow> nat \<Rightarrow> world \<Rightarrow> Pokemon option \<times> world" where
  "fetchLoop d excludePokemon attempts w =
     (if attempts < maxAttempts then
        (let i = randomId w; w1 = drawn w;
             cached = (case pokemonCache w1 i of
                         Some pokemon \<Rightarrow> if accepts d excludePokemon pokemon then Some pokemon else None
                       | None \<Rightarrow> None)
         in case cached of
              Some pokemon \<Rightarrow> (Some pokemon, w1)
            | None \<Rightarrow>
               (case axiosGet w1 i of
                  None \<Rightarrow> (None, requested w1)
                | Some pokemon \<Rightarrow>
                    (let w2 = (requested w1)\<lparr> pokemonCache := (pokemonCache w1)(i \<mapsto> pokemon) \<rparr>
                     in if accepts d excludePokemon pokemon then (Some pokemon, w2)
                        else fetchLoop d excludePokemon (attempts + 1) w2)))
      else
        (let lastId = randomId w; w1 = drawn w
         in (axiosGet w1 lastId, requested w1)))"
  by pat_completeness auto
termination
  by (relation "measure (\<lambda>(d, excludePokemon, attempts, w). maxAttempts - attempts)") auto

declare fetchLoop.simps [simp del]

definition fetchRandomPokemon ::
  "difficulty_level \<Rightarrow> Pokemon option \<Rightarrow> world \<Rightarrow> Pokemon option \<times> world" where
  "fetchRandomPokemon d excludePokemon w = fetchLoop d excludePokemon 0 w"

section \<open>Loading a round and starting a game\<close>

text \<open>
  \<open>loadNewBattle\<close> first raises the loading flag, then awaits the two fetches, then
  installs the round in one update if both records are there. Its own \<open>catch\<close> cannot
  be reached, since \<open>fetchRandomPokemon\<close> catches every failure and returns \<open>null\<close>.
\<close>

definition loadNewBattle_begin :: "GameState \<Rightarrow> GameState" where
  "loadNewBattle_begin prev = prev\<lparr> isLoading := True \<rparr>"

definition loadNewBattle_settle ::
  "GameState \<Rightarrow> Pokemon option \<Rightarrow> Pokemon option \<Rightarrow> GameState" where
  "loadNewBattle_settle prev p1 p2 =
     (case (p1, p2) of
        (Some a, Some b) \<Rightarrow>
          prev\<lparr> pokemon1 := Some a, pokemon2 := Some b, isLoading := False,
                result := None, userChoice := None, cooldown := 0 \<rparr>
      | _ \<Rightarrow> prev)"

definition loadNewBattle :: "difficulty_level \<Rightarrow> world \<Rightarrow> GameState \<Rightarrow> GameState \<times> world" where
  "loadNewBattle d w gameState =
     (let s1 = loadNewBattle_begin gameState;
          (p1, w1) = fetchRandomPokemon d None w;
          (p2, w2) = fetchRandomPokemon d p1 w1
      in (loadNewBattle_settle s1 p1 p2, w2))"

text \<open>The two awaited fetches of \<open>loadNewBattle\<close>, the second one given the first record.\<close>

definition firstFetch :: "difficulty_level \<Rightarrow> world \<Rightarrow> Pokemon option \<times> world" where
  "firstFetch d w = fetchRandomPokemon d None w"

definition secondFetch :: "difficulty_level \<Rightarrow> world \<Rightarrow> Pokemon option \<times> world" where
  "secondFetch d w = fetchRandomPokemon d (fst (firstFetch d w)) (snd (firstFetch d w))"

text \<open>
  \<open>startGame\<close> queues its update and calls the \<open>loadNewBattle\<close> of the current render,
  whose \<open>fetchRandomPokemon\<close> still holds the difficulty of that render.
\<close>

definition startGame_update :: "GameState \<Rightarrow> difficulty_level \<Rightarrow> GameState" where
  "startGame_update prev d = prev\<lparr> gameStatus := Playing, streak := 0, difficulty := d \<rparr>"

definition startGame :: "world \<Rightarrow> GameState \<Rightarrow> difficulty_level \<Rightarrow> GameState \<times> world" where
  "startGame w gameState d = loadNewBattle (difficulty gameState) w (startGame_update gameState d)"

section \<open>The high-score effect and the persisted value\<close>

text \<open>
  The effect that depends on the streak: when the streak exceeds the high score, the
  high score takes the streak and the streak is written to the storage.
\<close>

definition highScoreEffect :: "GameState \<times> int option \<Rightarrow> GameState \<times> int option" where
  "highScoreEffect a =
     (let gameState = fst a
      in if streak gameState > highScore gameState
         then (gameState\<lparr> highScore := streak gameState \<rparr>, Some (streak gameState))
         else a)"

section \<open>The component as a transition system\<close>

datatype event =
    StartGame difficulty_level
  | Choice int
  | Tick
  | LoadBegin
  | LoadDone "Pokemon option" "Pokemon option"

fun step :: "GameState \<Rightarrow> event \<Rightarrow> GameState" where
  "step s (StartGame d) = loadNewBattle_begin (startGame_update s d)"
| "step s (Choice c) = handleChoice s c"
| "step s Tick = tickCooldown s"
| "step s LoadBegin = loadNewBattle_begin s"
| "step s (LoadDone p1 p2) = loadNewBattle_settle s p1 p2"

text \<open>
  The render function returns the loading screen, the start screen, the game-over
  screen or the battle screen, tested in this order. The buttons that call
  \<open>startGame\<close> exist on the start and game-over screens only. \<open>handleChoice\<close> and
  the completion of a load carry their own guards, and a timer that was armed fires until
  the cleanup of the effect clears it; these events may come at any time.
\<close>

datatype screen = LoadingScreen | StartScreen | GameOverScreen | BattleScreen

definition render :: "GameState \<Rightarrow> screen" where
  "render gameState =
     (if isLoading gameState then LoadingScreen
      else if gameStatus gameState = Start then StartScreen
      else if gameStatus gameState = GameOver then GameOverScreen
      else BattleScreen)"

fun enabled :: "GameState \<Rightarrow> event \<Rightarrow> bool" where
  "enabled s (StartGame d) = (render s = StartScreen \<or> render s = GameOverScreen)"
| "enabled s (Choice c) = True"
| "enabled s Tick = True"
| "enabled s LoadBegin = True"
| "enabled s (LoadDone p1 p2) = True"

text \<open>
  One event followed by the effect it triggers: the high-score effect runs after a
  render in which the streak has changed, and once when the component mounts.
\<close>

definition react :: "GameState \<times> int option \<Rightarrow> event \<Rightarrow> GameState \<times> int option" where
  "react a e =
     (let s' = step (fst a) e
      in if streak s' \<noteq> streak (fst a) then highScoreEffect (s', snd a) else (s', snd a))"

definition mount :: "int option \<Rightarrow> GameState \<times> int option" where
  "mount saved = highScoreEffect (initialState saved, saved)"

fun exec :: "GameState \<times> int option \<Rightarrow> event list \<Rightarrow> GameState \<times> int option" where
  "exec a [] = a"
| "exec a (e # es) = exec (react a e) es"

text \<open>The largest streak among the states a run passes through.\<close>

fun maxStreak :: "GameState \<times> int option \<Rightarrow> event list \<Rightarrow> int" where
  "maxStreak a [] = streak (fst a)"
| "maxStreak a (e # es) = max (streak (fst a)) (maxStreak (react a e) es)"

section \<open>Concrete records and worlds\<close>

definition sampleRecord :: "int \<Rightarrow> int \<Rightarrow> Pokemon" where
  "sampleRecord i score =
     \<lparr> poke_id = i, poke_name = ''specimen'', front_default = ''sprite'',
       stats = [\<lparr> base_stat = score, stat_name = ''hp'' \<rparr>], types = [] \<rparr>"

text \<open>A service that answers every request for \<open>i\<close> with a record of total score \<open>score i\<close>.\<close>

definition serviceWorld :: "(nat \<Rightarrow> int) \<Rightarrow> (int \<Rightarrow> int) \<Rightarrow> world" where
  "serviceWorld ids score =
     \<lparr> pokemonCache = Map.empty, random_ids = ids, draws = 0,
       responses = (\<lambda>n i. Some (sampleRecord i (score i))), requests = 0 \<rparr>"

text \<open>A service that is down: every request throws.\<close>

definition offlineWorld :: world where
  "offlineWorld =
     \<lparr> pokemonCache = Map.empty, random_ids = (\<lambda>n. 25), draws = 0,
       responses = (\<lambda>n i. None), requests = 0 \<rparr>"

text \<open>The state right after a wrong prediction on a round of records 300 against 250.\<close>

definition lostRound :: GameState where
  "lostRound =
     \<lparr> pokemon1 = Some (sampleRecord 1 300), pokemon2 = Some (sampleRecord 4 250),
       userChoice = Some 2, streak = 0, highScore = 7, isLoading = False,
       result = Some Wrong, achievements = [], gameStatus = GameOver,
       difficulty = Easy, cooldown = 0 \<rparr>"

text \<open>An open round of records 300 against 250, before any prediction.\<close>

definition openRound :: GameState where
  "openRound =
     \<lparr> pokemon1 = Some (sampleRecord 1 300), pokemon2 = Some (sampleRecord 4 250),
       userChoice = None, streak = 2, highScore = 7, isLoading = False,
       result = None, achievements = [], gameStatus = Playing,
       difficulty = Easy, cooldown = 0 \<rparr>"

text \<open>
  A session: start in easy mode, a round of 300 against 250 arrives, the first record is
  chosen (correct), the cooldown runs out, and a round of 200 against 250 arrives.
\<close>

definition sampleSession :: "event list" where
  "sampleSession =
     [StartGame Easy,
      LoadDone (Some (sampleRecord 1 300)) (Some (sampleRecord 4 250)),
      Choice 1, Tick, Tick, Tick, LoadBegin,
      LoadDone (Some (sampleRecord 7 200)) (Some (sampleRecord 9 250))]"

text \<open>
  The same start, stopped after two ticks: the cooldown is 1 and the timer is armed.
\<close>

definition armedSession :: "event list" where
  "armedSession =
     [StartGame Easy,
      LoadDone (Some (sampleRecord 1 300)) (Some (sampleRecord 4 250)),
      Choice 1, Tick, Tick]"

text \<open>A record with the given attribute values, in order.\<close>

definition statsRecord :: "int \<Rightarrow> int list \<Rightarrow> Pokemon" where
  "statsRecord i vals =
     \<lparr> poke_id = i, poke_name = ''specimen'', front_default = ''sprite'',
       stats = map (\<lambda>v. \<lparr> base_stat = v, stat_name = ''stat'' \<rparr>) vals, types = [] \<rparr>"

text \<open>
  An open round of six attributes each: the first record sums to 309, the second to 318,
  although the first one has the larger last attribute.
\<close>

definition statsRound :: GameState where
  "statsRound =
     \<lparr> pokemon1 = Some (statsRecord 4 [39, 52, 43, 60, 50, 65]),
       pokemon2 = Some (statsRecord 1 [45, 49, 49, 65, 65, 45]),
       userChoice = None, streak = 0, highScore = 0, isLoading = False,
       result = None, achievements = [], gameStatus = Playing,
       difficulty = Easy, cooldown = 0 \<rparr>"

text \<open>A service whose first request succeeds and whose later requests all throw.\<close>

definition flakyWorld :: world where
  "flakyWorld =
     \<lparr> pokemonCache = Map.empty, random_ids = (\<lambda>n. 25), draws = 0,
       responses = (\<lambda>n i. if n = 0 then Some (sampleRecord i 320) else None), requests = 0 \<rparr>"



text \<open>
  The random source yields 1, 2, 3, ...; the records 1 to 5 have total 500 and the
  record 6 has total 100.
\<close>

definition countingWorld :: world where
  "countingWorld = serviceWorld (\<lambda>n. int n + 1) (\<lambda>i. if i = 6 then 100 else 500)"

section \<open>Properties\<close>

subsection \<open>Shared facts about the transitions\<close>

lemma calculateWinner_cases:
  "calculateWinner p1 p2 = (if calculateTotalStats p1 \<ge> calculateTotalStats p2 then 1 else 2)"
  by (simp add: calculateWinner_def Let_def)

lemma handleChoice_open:
  assumes "pokemon1 s = Some a" "pokemon2 s = Some b" "cooldown s \<le> 0"
  shows "handleChoice s c =
           s\<lparr> userChoice := Some c,
              result := Some (if c = calculateWinner a b then Correct else Wrong),
              streak := (if c = calculateWinner a b then streak s + 1 else 0),
              gameStatus := (if c \<noteq> calculateWinner a b then GameOver else Playing),
              cooldown := (if c = calculateWinner a b then 3 else 0) \<rparr>"
  using assms by (simp add: handleChoice_def Let_def)

subsection \<open>The winner rule\<close>

text \<open>The fold of \<open>calculateTotalStats\<close> is the sum of the attribute values.\<close>

lemma foldl_base_stat:
  "foldl (\<lambda>sum stat. sum + base_stat stat) acc xs = acc + sum_list (map base_stat xs)"
  by (induction xs arbitrary: acc) simp_all

lemma calculateTotalStats_sum:
  "calculateTotalStats pokemon = sum_list (map base_stat (stats pokemon))"
  by (simp add: calculateTotalStats_def foldl_base_stat)

text \<open>
  Claim C1. The total score that the code computes for a record is the sum of all its
  attribute values. The winner computed for two present candidates is the first one (1)
  exactly when the sum of the attribute values of the first is greater than or equal to
  that of the second, and the second one (2) otherwise; equal sums give the first. A
  prediction that \<open>handleChoice\<close> accepts is judged against exactly this winner.
\<close>

theorem C1_winner_rule:
  "calculateTotalStats a = sum_list (map base_stat (stats a))
   \<and> calculateWinner a b =
        (if sum_list (map base_stat (stats a)) \<ge> sum_list (map base_stat (stats b)) then 1 else 2)
   \<and> (sum_list (map base_stat (stats a)) = sum_list (map base_stat (stats b)) \<longrightarrow>
        calculateWinner a b = 1)
   \<and> (pokemon1 s = Some a \<and> pokemon2 s = Some b \<and> cooldown s \<le> 0 \<longrightarrow>
        result (handleChoice s c) =
          Some (if c = (if sum_list (map base_stat (stats a)) \<ge> sum_list (map base_stat (stats b))
                        then 1 else 2)
                then Correct else Wrong))"
  by (simp add: handleChoice_open calculateWinner_cases calculateTotalStats_sum)

theorem C1_winner_rule_witness:
  "pokemon1 statsRound = Some (statsRecord 4 [39, 52, 43, 60, 50, 65])
   \<and> pokemon2 statsRound = Some (statsRecord 1 [45, 49, 49, 65, 65, 45])
   \<and> cooldown statsRound \<le> 0
   \<and> calculateTotalStats (statsRecord 4 [39, 52, 43, 60, 50, 65]) = 309
   \<and> calculateTotalStats (statsRecord 1 [45, 49, 49, 65, 65, 45]) = 318
   \<and> calculateWinner (statsRecord 4 [39, 52, 43, 60, 50, 65]) (statsRecord 1 [45, 49, 49, 65, 65, 45]) = 2
   \<and> calculateWinner (statsRecord 1 [45, 49, 49, 65, 65, 45]) (statsRecord 4 [39, 52, 43, 60, 50, 65]) = 1
   \<and> result (handleChoice statsRound 2) = Some Correct
   \<and> result (handleChoice statsRound 1) = Some Wrong
   \<and> sum_list (map base_stat (stats (statsRecord 7 [100, 180])))
        = sum_list (map base_stat (stats (statsRecord 9 [200, 80])))
   \<and> calculateWinner (statsRecord 7 [100, 180]) (statsRecord 9 [200, 80]) = 1"
  using C1_winner_rule [of "statsRecord 4 [39, 52, 43, 60, 50, 65]" "statsRecord 1 [45, 49, 49, 65, 65, 45]"
          statsRound 2]
        C1_winner_rule [of "statsRecord 4 [39, 52, 43, 60, 50, 65]" "statsRecord 1 [45, 49, 49, 65, 65, 45]"
          statsRound 1]
        C1_winner_rule [of "statsRecord 1 [45, 49, 49, 65, 65, 45]" "statsRecord 4 [39, 52, 43, 60, 50, 65]"
          statsRound 1]
        C1_winner_rule [of "statsRecord 7 [100, 180]" "statsRecord 9 [200, 80]" statsRound 1]
  by (simp add: statsRound_def statsRecord_def)

subsection \<open>The guard of a prediction\<close>

text \<open>
  Claim C2, as stated, fails: \<open>handleChoice\<close> does not test the game status or an
  earlier choice. In the state right after a wrong prediction the game is over and a
  choice is recorded, yet a further call changes the state.
\<close>

theorem C2_guard_counterexample:
  "(gameStatus lostRound \<noteq> Playing \<and> userChoice lostRound \<noteq> None)
   \<and> handleChoice lostRound 1 \<noteq> lostRound"
  by (simp add: lostRound_def handleChoice_def calculateWinner_def calculateTotalStats_def
        sampleRecord_def Let_def)

text \<open>
  Claim C2, amended. In every state in which a candidate is absent or the cooldown is
  positive, \<open>handleChoice\<close> with any selector returns the state unchanged.
\<close>

theorem C2_guard_noop:
  "pokemon1 s = None \<or> pokemon2 s = None \<or> cooldown s > 0 \<Longrightarrow> handleChoice s c = s"
  by (auto simp: handleChoice_def split: option.splits)

theorem C2_guard_noop_witness:
  "cooldown (openRound\<lparr> cooldown := 3 \<rparr>) > 0
   \<and> handleChoice (openRound\<lparr> cooldown := 3 \<rparr>) 2 = openRound\<lparr> cooldown := 3 \<rparr>
   \<and> pokemon1 (initialState None) = None
   \<and> handleChoice (initialState None) 1 = initialState None"
  using C2_guard_noop [of "openRound\<lparr> cooldown := 3 \<rparr>" 2]
        C2_guard_noop [of "initialState None" 1]
  by (simp add: openRound_def initialState_def)

subsection \<open>Facts about the events and the high-score effect\<close>

lemma handleChoice_cases:
  "handleChoice s c = s \<or>
   (\<exists>a b. pokemon1 s = Some a \<and> pokemon2 s = Some b \<and> cooldown s \<le> 0 \<and>
      handleChoice s c =
           s\<lparr> userChoice := Some c,
              result := Some (if c = calculateWinner a b then Correct else Wrong),
              streak := (if c = calculateWinner a b then streak s + 1 else 0),
              gameStatus := (if c \<noteq> calculateWinner a b then GameOver else Playing),
              cooldown := (if c = calculateWinner a b then 3 else 0) \<rparr>)"
  by (auto simp: handleChoice_def Let_def split: option.splits)

lemma step_highScore: "highScore (step s e) = highScore s"
proof (cases e)
  case (Choice c)
  with handleChoice_cases [of s c] show ?thesis by auto
qed (auto simp: tickCooldown_def loadNewBattle_begin_def loadNewBattle_settle_def
       startGame_update_def split: option.splits)

lemma step_streak_status:
  "0 \<le> streak s \<and> (gameStatus s \<noteq> Playing \<longrightarrow> streak s = 0) \<Longrightarrow>
   0 \<le> streak (step s e) \<and> (gameStatus (step s e) \<noteq> Playing \<longrightarrow> streak (step s e) = 0)"
proof (cases e)
  case (Choice c)
  assume "0 \<le> streak s \<and> (gameStatus s \<noteq> Playing \<longrightarrow> streak s = 0)"
  with handleChoice_cases [of s c] Choice show ?thesis by auto
qed (auto simp: tickCooldown_def loadNewBattle_begin_def loadNewBattle_settle_def
       startGame_update_def split: option.splits)

lemma highScoreEffect_fields:
  "cooldown (fst (highScoreEffect a)) = cooldown (fst a)"
  "streak (fst (highScoreEffect a)) = streak (fst a)"
  "gameStatus (fst (highScoreEffect a)) = gameStatus (fst a)"
  "highScore (fst (highScoreEffect a)) = max (highScore (fst a)) (streak (fst a))"
  by (simp_all add: highScoreEffect_def Let_def)

lemma react_fields:
  "cooldown (fst (react a e)) = cooldown (step (fst a) e)"
  "streak (fst (react a e)) = streak (step (fst a) e)"
  "gameStatus (fst (react a e)) = gameStatus (step (fst a) e)"
  by (simp_all add: react_def Let_def highScoreEffect_fields)

lemma react_highScore:
  "streak (fst a) \<le> highScore (fst a) \<Longrightarrow>
   highScore (fst (react a e)) = max (highScore (fst a)) (streak (step (fst a) e))"
  by (auto simp: react_def Let_def highScoreEffect_fields step_highScore)

lemma react_highScore_mono: "highScore (fst a) \<le> highScore (fst (react a e))"
  by (simp add: react_def Let_def highScoreEffect_fields step_highScore)

lemma react_settled:
  "streak (fst a) \<le> highScore (fst a) \<Longrightarrow> streak (fst (react a e)) \<le> highScore (fst (react a e))"
  by (simp add: react_highScore react_fields)

lemma mount_fields:
  "cooldown (fst (mount saved)) = 0"
  "streak (fst (mount saved)) = 0"
  "highScore (fst (mount saved)) = max (case saved of Some v \<Rightarrow> v | None \<Rightarrow> 0) 0"
  by (simp_all add: mount_def highScoreEffect_fields initialState_def)

subsection \<open>Invariants of every run\<close>

lemma exec_streak_status:
  "0 \<le> streak (fst a) \<and> (gameStatus (fst a) \<noteq> Playing \<longrightarrow> streak (fst a) = 0) \<Longrightarrow>
   0 \<le> streak (fst (exec a es))
   \<and> (gameStatus (fst (exec a es)) \<noteq> Playing \<longrightarrow> streak (fst (exec a es)) = 0)"
proof (induction es arbitrary: a)
  case Nil
  then show ?case by simp
next
  case (Cons e es)
  from step_streak_status [OF Cons.prems, of e]
  have "0 \<le> streak (fst (react a e))
        \<and> (gameStatus (fst (react a e)) \<noteq> Playing \<longrightarrow> streak (fst (react a e)) = 0)"
    by (simp add: react_fields)
  from Cons.IH [OF this] show ?case by simp
qed

lemma maxStreak_ge: "streak (fst a) \<le> maxStreak a es"
  by (cases es) simp_all

lemma exec_highScore:
  "streak (fst a) \<le> highScore (fst a) \<Longrightarrow>
   highScore (fst (exec a es)) = max (highScore (fst a)) (maxStreak a es)
   \<and> streak (fst (exec a es)) \<le> highScore (fst (exec a es))"
proof (induction es arbitrary: a)
  case Nil
  then show ?case by simp
next
  case (Cons e es)
  have s1: "streak (fst (react a e)) \<le> highScore (fst (react a e))"
    using Cons.prems by (rule react_settled)
  have h1: "highScore (fst (react a e)) = max (highScore (fst a)) (streak (fst (react a e)))"
    using Cons.prems by (simp add: react_highScore react_fields)
  have ge: "streak (fst (react a e)) \<le> maxStreak (react a e) es"
    by (rule maxStreak_ge)
  from Cons.IH [OF s1] h1 ge Cons.prems show ?case by auto
qed

text \<open>
  Where the streak is zero whenever the game is not being played, only a wrong
  prediction can lower the streak: the start buttons are not on the battle screen.
\<close>

lemma streak_drop:
  assumes inv: "0 \<le> streak s \<and> (gameStatus s \<noteq> Playing \<longrightarrow> streak s = 0)"
    and en: "enabled s e" and lt: "streak (step s e) < streak s"
  shows "\<exists>c a b. e = Choice c \<and> pokemon1 s = Some a \<and> pokemon2 s = Some b
            \<and> cooldown s \<le> 0 \<and> c \<noteq> calculateWinner a b"
proof (cases e)
  case (StartGame d)
  with en have "gameStatus s \<noteq> Playing" by (auto simp: render_def split: if_splits)
  with inv lt StartGame show ?thesis
    by (simp add: startGame_update_def loadNewBattle_begin_def)
next
  case (Choice c)
  with handleChoice_cases [of s c] lt show ?thesis by (auto split: if_splits)
next
  case Tick
  with lt show ?thesis by (simp add: tickCooldown_def split: if_splits)
next
  case LoadBegin
  with lt show ?thesis by (simp add: loadNewBattle_begin_def)
next
  case (LoadDone p1 p2)
  with lt show ?thesis by (auto simp: loadNewBattle_settle_def split: option.splits)
qed

lemmas eval_defs = mount_def initialState_def highScoreEffect_def react_def Let_def
  startGame_update_def loadNewBattle_begin_def loadNewBattle_settle_def handleChoice_def
  tickCooldown_def calculateWinner_def calculateTotalStats_def sampleRecord_def render_def

lemma sampleSession_state:
  "exec (mount None) sampleSession =
     (\<lparr> pokemon1 = Some (sampleRecord 7 200), pokemon2 = Some (sampleRecord 9 250),
        userChoice = None, streak = 1, highScore = 1, isLoading = False,
        result = None, achievements = [], gameStatus = Playing,
        difficulty = Easy, cooldown = 0 \<rparr>, Some 1)"
  by (simp add: sampleSession_def eval_defs)

subsection \<open>The streak\<close>

text \<open>
  Claim C4. A prediction that \<open>handleChoice\<close> accepts (both candidates present, no
  cooldown running) and that equals the computed winner adds exactly 1 to the streak,
  sets the result to correct and the cooldown to 3 and keeps the game playing; one that
  differs from the winner sets the streak to 0, the result to wrong and the game status
  to game over. In every state the component reaches from its mount, an event that the
  screen allows and that lowers the streak is a wrong prediction.
\<close>

theorem C4_streak_update:
  "(pokemon1 s = Some a \<and> pokemon2 s = Some b \<and> cooldown s \<le> 0 \<and> c = calculateWinner a b \<longrightarrow>
      streak (handleChoice s c) = streak s + 1
      \<and> result (handleChoice s c) = Some Correct
      \<and> cooldown (handleChoice s c) = 3
      \<and> gameStatus (handleChoice s c) = Playing
      \<and> isLoading (handleChoice s c) = isLoading s)
   \<and> (pokemon1 s = Some a \<and> pokemon2 s = Some b \<and> cooldown s \<le> 0 \<and> c \<noteq> calculateWinner a b \<longrightarrow>
      streak (handleChoice s c) = 0
      \<and> result (handleChoice s c) = Some Wrong
      \<and> gameStatus (handleChoice s c) = GameOver)
   \<and> (enabled (fst (exec (mount saved) es)) e
        \<and> streak (fst (react (exec (mount saved) es) e)) < streak (fst (exec (mount saved) es)) \<longrightarrow>
      (\<exists>k p q. e = Choice k \<and> pokemon1 (fst (exec (mount saved) es)) = Some p
          \<and> pokemon2 (fst (exec (mount saved) es)) = Some q \<and> k \<noteq> calculateWinner p q))"
proof (intro conjI impI)
  assume h: "enabled (fst (exec (mount saved) es)) e
        \<and> streak (fst (react (exec (mount saved) es) e)) < streak (fst (exec (mount saved) es))"
  have inv: "0 \<le> streak (fst (exec (mount saved) es))
        \<and> (gameStatus (fst (exec (mount saved) es)) \<noteq> Playing \<longrightarrow> streak (fst (exec (mount saved) es)) = 0)"
    by (rule exec_streak_status) (simp add: mount_fields)
  from h have lt: "streak (step (fst (exec (mount saved) es)) e) < streak (fst (exec (mount saved) es))"
    by (simp add: react_fields)
  from streak_drop [OF inv _ lt] h
  show "\<exists>k p q. e = Choice k \<and> pokemon1 (fst (exec (mount saved) es)) = Some p
          \<and> pokemon2 (fst (exec (mount saved) es)) = Some q \<and> k \<noteq> calculateWinner p q"
    by blast
qed (simp_all add: handleChoice_open)

theorem C4_streak_update_witness:
  "pokemon1 openRound = Some (sampleRecord 1 300) \<and> pokemon2 openRound = Some (sampleRecord 4 250)
   \<and> cooldown openRound \<le> 0
   \<and> streak (handleChoice openRound 1) = streak openRound + 1
   \<and> cooldown (handleChoice openRound 1) = 3
   \<and> streak (handleChoice openRound 2) = 0
   \<and> gameStatus (handleChoice openRound 2) = GameOver
   \<and> enabled (fst (exec (mount None) sampleSession)) (Choice 1)
   \<and> streak (fst (react (exec (mount None) sampleSession) (Choice 1)))
        < streak (fst (exec (mount None) sampleSession))
   \<and> (\<exists>k p q. Choice 1 = Choice k \<and> pokemon1 (fst (exec (mount None) sampleSession)) = Some p
          \<and> pokemon2 (fst (exec (mount None) sampleSession)) = Some q \<and> k \<noteq> calculateWinner p q)"
  using C4_streak_update [of openRound "sampleRecord 1 300" "sampleRecord 4 250" 1 None sampleSession "Choice 1"]
        C4_streak_update [of openRound "sampleRecord 1 300" "sampleRecord 4 250" 2 None sampleSession "Choice 1"]
  by (simp add: sampleSession_state) (simp add: openRound_def eval_defs)

subsection \<open>The high score\<close>

text \<open>
  Claim C6. The high score never decreases across an event and the effect it triggers.
  After any sequence of events from the mount it equals the larger of the value that was
  persisted at the start (0 when nothing was stored) and the largest streak reached. The
  persisted value is overwritten, with the new streak, exactly when the streak produced
  by an event exceeds the current high score.
\<close>

theorem C6_highScore:
  "highScore (fst a) \<le> highScore (fst (react a e))
   \<and> highScore (fst (exec (mount saved) es))
        = max (case saved of Some v \<Rightarrow> v | None \<Rightarrow> 0) (maxStreak (mount saved) es)
   \<and> highScore (fst (mount saved)) \<le> highScore (fst (exec (mount saved) es))
   \<and> snd (react (exec (mount saved) es) e)
        = (if streak (step (fst (exec (mount saved) es)) e) > highScore (fst (exec (mount saved) es))
           then Some (streak (step (fst (exec (mount saved) es)) e))
           else snd (exec (mount saved) es))"
proof -
  have m: "streak (fst (mount saved)) \<le> highScore (fst (mount saved))"
    by (simp add: mount_fields)
  note hs = exec_highScore [OF m, of es]
  have ge: "0 \<le> maxStreak (mount saved) es"
    using maxStreak_ge [of "mount saved" es] by (simp add: mount_fields)
  have b: "highScore (fst (exec (mount saved) es))
        = max (case saved of Some v \<Rightarrow> v | None \<Rightarrow> 0) (maxStreak (mount saved) es)"
    using hs ge by (simp add: mount_fields)
  have c: "highScore (fst (mount saved)) \<le> highScore (fst (exec (mount saved) es))"
    using hs by simp
  have d: "snd (react (exec (mount saved) es) e)
        = (if streak (step (fst (exec (mount saved) es)) e) > highScore (fst (exec (mount saved) es))
           then Some (streak (step (fst (exec (mount saved) es)) e))
           else snd (exec (mount saved) es))"
    using hs by (auto simp: react_def Let_def highScoreEffect_def step_highScore)
  from react_highScore_mono b c d show ?thesis by blast
qed

theorem C6_highScore_witness:
  "highScore (fst (exec (mount (Some 1)) (sampleSession @ [Choice 2]))) = 2
   \<and> maxStreak (mount (Some 1)) (sampleSession @ [Choice 2]) = 2
   \<and> snd (exec (mount (Some 1)) sampleSession) = Some 1
   \<and> snd (react (exec (mount (Some 1)) sampleSession) (Choice 2)) = Some 2
   \<and> snd (react (exec (mount (Some 1)) sampleSession) (Choice 1)) = Some 1"
  using C6_highScore [of "exec (mount (Some 1)) sampleSession" "Choice 2" "Some 1" "sampleSession @ [Choice 2]"]
        C6_highScore [of "exec (mount (Some 1)) sampleSession" "Choice 2" "Some 1" "sampleSession"]
        C6_highScore [of "exec (mount (Some 1)) sampleSession" "Choice 1" "Some 1" "sampleSession"]
  by (simp add: sampleSession_def eval_defs)

subsection \<open>The cooldown\<close>

text \<open>Right after a correct prediction the cooldown is exactly 3.\<close>

lemma handleChoice_correct_cooldown:
  "pokemon1 s = Some a \<Longrightarrow> pokemon2 s = Some b \<Longrightarrow> cooldown s \<le> 0 \<Longrightarrow>
   cooldown (handleChoice s (calculateWinner a b)) = 3"
  by (simp add: handleChoice_open)

text \<open>A tick lowers the cooldown by exactly 1, whatever the cooldown is.\<close>

lemma tickCooldown_decrement: "cooldown (tickCooldown s) = cooldown s - 1"
  by (simp add: tickCooldown_def)

text \<open>
  Claim C7, evaluated on the code. After a correct prediction and two ticks the cooldown
  is 1 and the timer is armed. The deferred round load then settles and writes the
  cooldown 0. When the timer that was armed at cooldown 1 fires before the cleanup of the
  effect has cleared it, its callback decrements without a test, and the cooldown is -1.
\<close>

theorem C7_stale_timer:
  "cooldown (fst (exec (mount None) armedSession)) = 1
   \<and> cooldownTimerArmed (fst (exec (mount None) armedSession))
   \<and> cooldown (fst (exec (mount None)
         (armedSession @ [LoadBegin, LoadDone (Some (sampleRecord 7 200)) (Some (sampleRecord 9 250))]))) = 0
   \<and> cooldown (fst (exec (mount None)
         (armedSession @ [LoadBegin, LoadDone (Some (sampleRecord 7 200)) (Some (sampleRecord 9 250)), Tick])))
       = - 1"
  by (simp add: armedSession_def cooldownTimerArmed_def eval_defs)

subsection \<open>Starting a game and loading a round\<close>

lemma loadNewBattle_fetches:
  "loadNewBattle d w s =
     (loadNewBattle_settle (loadNewBattle_begin s) (fst (firstFetch d w)) (fst (secondFetch d w)),
      snd (secondFetch d w))"
  by (simp add: loadNewBattle_def firstFetch_def secondFetch_def Let_def split: prod.splits)

lemma settle_missing:
  "p1 = None \<or> p2 = None \<Longrightarrow> loadNewBattle_settle s p1 p2 = s"
  by (auto simp: loadNewBattle_settle_def split: option.splits)

lemmas world_defs = fetchRandomPokemon_def maxAttempts_def randomId_def drawn_def axiosGet_def
  requested_def accepts_def isSimilarStats_def calculateTotalStats_def sampleRecord_def
  serviceWorld_def Let_def

text \<open>
  Claim C8. For every difficulty, \<open>startGame\<close> sets the streak to 0 and the difficulty
  to the given value, takes the game status to playing and raises the loading flag, and
  leaves the high score as it was; this holds when \<open>startGame\<close> returns and still holds
  when its round load has finished, whatever the fetches gave.
\<close>

theorem C8_startGame:
  "streak (step s (StartGame d)) = 0
   \<and> difficulty (step s (StartGame d)) = d
   \<and> gameStatus (step s (StartGame d)) = Playing
   \<and> isLoading (step s (StartGame d))
   \<and> highScore (step s (StartGame d)) = highScore s
   \<and> streak (fst (startGame w s d)) = 0
   \<and> difficulty (fst (startGame w s d)) = d
   \<and> gameStatus (fst (startGame w s d)) = Playing
   \<and> highScore (fst (startGame w s d)) = highScore s"
  by (simp add: startGame_def loadNewBattle_fetches loadNewBattle_settle_def
        loadNewBattle_begin_def startGame_update_def split: option.splits)

theorem C8_startGame_witness:
  "gameStatus lostRound = GameOver
   \<and> streak (step lostRound (StartGame Hard)) = 0
   \<and> difficulty (step lostRound (StartGame Hard)) = Hard
   \<and> gameStatus (step lostRound (StartGame Hard)) = Playing
   \<and> isLoading (step lostRound (StartGame Hard))
   \<and> highScore (step lostRound (StartGame Hard)) = 7
   \<and> highScore (fst (startGame offlineWorld lostRound Hard)) = 7"
  using C8_startGame [of lostRound Hard offlineWorld]
  by (simp add: lostRound_def)

text \<open>
  Claim C9. If the first or the second fetch of \<open>loadNewBattle\<close> returns \<open>null\<close>, the
  state after the load is the state before it with the loading flag raised: both
  candidates, the choice, the result, the streak, the high score, the game status and
  the difficulty are the ones from before the call.
\<close>

theorem C9_failed_load:
  assumes "fst (firstFetch d w) = None \<or> fst (secondFetch d w) = None"
  shows "fst (loadNewBattle d w s) = s\<lparr> isLoading := True \<rparr>
         \<and> pokemon1 (fst (loadNewBattle d w s)) = pokemon1 s
         \<and> pokemon2 (fst (loadNewBattle d w s)) = pokemon2 s
         \<and> userChoice (fst (loadNewBattle d w s)) = userChoice s
         \<and> result (fst (loadNewBattle d w s)) = result s
         \<and> streak (fst (loadNewBattle d w s)) = streak s
         \<and> highScore (fst (loadNewBattle d w s)) = highScore s
         \<and> gameStatus (fst (loadNewBattle d w s)) = gameStatus s
         \<and> difficulty (fst (loadNewBattle d w s)) = difficulty s"
  using assms by (simp add: loadNewBattle_fetches settle_missing loadNewBattle_begin_def)

theorem C9_failed_load_witness:
  "fst (firstFetch Hard offlineWorld) = None
   \<and> fst (loadNewBattle Hard offlineWorld openRound) = openRound\<lparr> isLoading := True \<rparr>
   \<and> fst (firstFetch Easy flakyWorld) = Some (sampleRecord 25 320)
   \<and> fst (secondFetch Easy flakyWorld) = None
   \<and> fst (loadNewBattle Easy flakyWorld openRound) = openRound\<lparr> isLoading := True \<rparr>"
  using C9_failed_load [of Hard offlineWorld openRound]
        C9_failed_load [of Easy flakyWorld openRound]
  by (simp add: firstFetch_def secondFetch_def offlineWorld_def flakyWorld_def world_defs
        fetchLoop.simps)

subsection \<open>The sampling loop\<close>

lemma accepts_easy: "\<not> accepts Easy (Some excluded) pokemon"
  by (simp add: accepts_def)

lemma fetchLoop_exit:
  "\<not> attempts < maxAttempts \<Longrightarrow>
   fetchLoop d ex attempts w = (axiosGet (drawn w) (randomId w), requested (drawn w))"
  by (subst fetchLoop.simps) (simp add: Let_def)

lemma fetchLoop_easy_step:
  "attempts < maxAttempts \<Longrightarrow>
   fetchLoop Easy (Some ex) attempts w =
     (case axiosGet (drawn w) (randomId w) of
        None \<Rightarrow> (None, requested (drawn w))
      | Some pokemon \<Rightarrow>
          fetchLoop Easy (Some ex) (Suc attempts)
            ((requested (drawn w))\<lparr> pokemonCache := (pokemonCache (drawn w))(randomId w \<mapsto> pokemon) \<rparr>))"
  by (subst fetchLoop.simps) (simp add: Let_def accepts_easy split: option.splits)

text \<open>
  In easy mode with an exclusion record the loop accepts nothing: it sends one request
  per iteration, and the result is the answer to the request sent after the loop.
\<close>

lemma fetchLoop_easy_closed:
  "maxAttempts - attempts = n \<Longrightarrow> attempts \<le> maxAttempts \<Longrightarrow>
   fst (fetchLoop Easy (Some ex) attempts w) =
     (if \<forall>k < n. responses w (requests w + k) (random_ids w (draws w + k)) \<noteq> None
      then responses w (requests w + n) (random_ids w (draws w + n))
      else None)"
proof (induction n arbitrary: attempts w)
  case 0
  then have "\<not> attempts < maxAttempts" by simp
  then show ?case
    by (simp add: fetchLoop_exit axiosGet_def drawn_def randomId_def)
next
  case (Suc n)
  then have lt: "attempts < maxAttempts" by simp
  show ?case
  proof (cases "responses w (requests w) (random_ids w (draws w))")
    case None
    then have neg: "\<not> (\<forall>k < Suc n. responses w (requests w + k) (random_ids w (draws w + k)) \<noteq> None)"
      by (auto intro: exI [of _ 0])
    have l: "fst (fetchLoop Easy (Some ex) attempts w) = None"
      using None lt by (simp add: fetchLoop_easy_step axiosGet_def drawn_def randomId_def)
    show ?thesis
      by (simp only: l if_not_P [OF neg])
  next
    case (Some p)
    let ?w2 = "(requested (drawn w))\<lparr> pokemonCache := (pokemonCache (drawn w))(randomId w \<mapsto> p) \<rparr>"
    have ih: "fst (fetchLoop Easy (Some ex) (Suc attempts) ?w2) =
      (if \<forall>k < n. responses ?w2 (requests ?w2 + k) (random_ids ?w2 (draws ?w2 + k)) \<noteq> None
       then responses ?w2 (requests ?w2 + n) (random_ids ?w2 (draws ?w2 + n))
       else None)"
      using Suc.prems by (intro Suc.IH) simp_all
    have step: "fetchLoop Easy (Some ex) attempts w = fetchLoop Easy (Some ex) (Suc attempts) ?w2"
      using lt Some by (simp add: fetchLoop_easy_step axiosGet_def drawn_def randomId_def)
    show ?thesis
      unfolding step ih using Some
      by (auto simp add: All_less_Suc2 drawn_def requested_def simp del: All_less_Suc)
  qed
qed


text \<open>
  Claim C10. In easy mode, for a request made with an exclusion record, the acceptance
  test of the loop is false for every record, and the record returned is the answer to
  the request sent after the five iterations of the loop, for the identifier drawn
  after the five drawn in the loop; when one of the five requests of the loop throws,
  nothing is returned.
\<close>

theorem C10_easy_second_candidate:
  "\<not> accepts Easy (Some excluded) pokemon
   \<and> fst (fetchRandomPokemon Easy (Some excluded) w) =
       (if \<forall>k < 5. responses w (requests w + k) (random_ids w (draws w + k)) \<noteq> None
        then responses w (requests w + 5) (random_ids w (draws w + 5))
        else None)"
  using fetchLoop_easy_closed [of 0 5 excluded w]
  by (simp add: fetchRandomPokemon_def accepts_easy maxAttempts_def del: All_less_Suc)

theorem C10_easy_second_candidate_witness:
  "responses countingWorld (requests countingWorld + 0)
       (random_ids countingWorld (draws countingWorld + 0)) = Some (sampleRecord 1 500)
   \<and> responses countingWorld (requests countingWorld + 1)
       (random_ids countingWorld (draws countingWorld + 1)) = Some (sampleRecord 2 500)
   \<and> responses countingWorld (requests countingWorld + 2)
       (random_ids countingWorld (draws countingWorld + 2)) = Some (sampleRecord 3 500)
   \<and> responses countingWorld (requests countingWorld + 3)
       (random_ids countingWorld (draws countingWorld + 3)) = Some (sampleRecord 4 500)
   \<and> responses countingWorld (requests countingWorld + 4)
       (random_ids countingWorld (draws countingWorld + 4)) = Some (sampleRecord 5 500)
   \<and> fst (fetchRandomPokemon Easy (Some (sampleRecord 3 500)) countingWorld) = Some (sampleRecord 6 100)
   \<and> fst (fetchRandomPokemon Easy (Some (sampleRecord 3 500)) offlineWorld) = None"
  using C10_easy_second_candidate [of "sampleRecord 3 500" "sampleRecord 3 500" countingWorld]
        C10_easy_second_candidate [of "sampleRecord 3 500" "sampleRecord 3 500" offlineWorld]
  by (simp add: countingWorld_def serviceWorld_def offlineWorld_def)

text \<open>
  Claim C5, evaluated on the code. In hard mode, with a first candidate of total 300 and
  a service whose records 1 to 5 have total 500 and whose record 6 has total 100, the
  five records sampled in the loop are all refused; the code then draws a sixth
  identifier and returns its record. The last record found in the loop, the fifth, stays
  in the cache and is not the one returned.
\<close>

theorem C5_sixth_sample:
  "fst (fetchRandomPokemon Hard (Some (sampleRecord 9 300)) countingWorld) = Some (sampleRecord 6 100)
   \<and> draws (snd (fetchRandomPokemon Hard (Some (sampleRecord 9 300)) countingWorld)) = 6
   \<and> requests (snd (fetchRandomPokemon Hard (Some (sampleRecord 9 300)) countingWorld)) = 6
   \<and> pokemonCache (snd (fetchRandomPokemon Hard (Some (sampleRecord 9 300)) countingWorld)) 5
        = Some (sampleRecord 5 500)
   \<and> pokemonCache (snd (fetchRandomPokemon Hard (Some (sampleRecord 9 300)) countingWorld)) 6 = None"
  by (simp add: countingWorld_def world_defs fetchLoop.simps)

subsection \<open>The identifiers of the two candidates\<close>




end
